theory Spec2Isabelle
  imports Main
begin

section \<open>Data model of the group service\<close>

text \<open>
  Modelled from the spec: the type declarations of \<open>../types/group\<close>,
  \<open>../types/user\<close> and \<open>../types/events\<close>, which the service imports and which
  are not among the sources. The records follow the data model of the specification
  (group, group user, group project, group role, user) and carry the fields that
  \<open>GroupService\<close> reads or writes. Identifiers are JavaScript numbers used as
  integers, dates are time stamps, and an optional field (\<open>id?: number\<close>) is an
  \<open>option\<close> with \<open>None\<close> for \<open>undefined\<close>.
\<close>

record IUser =
  user_id :: int
  username :: string

record ICreateGroupUserModel =
  user :: IUser

record IGroup =
  group_id :: "int option"
  name :: string
  rootRole :: "int option"

record ICreateGroupModel = IGroup +
  users :: "ICreateGroupUserModel list"

record IGroupUser =
  groupId :: int
  userId :: int
  joinedAt :: int
  createdBy :: "string option"

record IGroupUserModel =
  gum_user :: IUser
  gum_joinedAt :: int
  gum_createdBy :: "string option"

record IGroupModel =
  gm_group :: IGroup
  gm_users :: "IGroupUserModel list"
  projects :: "string list option"

record IGroupProject =
  gp_groupId :: int
  project :: string

record IGroupRole =
  gr_groupId :: int
  roleId :: int
  createdAt :: int

record IGroupModelWithProjectRole =
  pr_model :: IGroupModel
  pr_roleId :: int
  addedAt :: int

datatype event =
  GROUP_CREATED string ICreateGroupModel
| GROUP_UPDATED string IGroup IGroup

text \<open>
  The second argument of \<open>syncExternalGroups\<close> is declared \<open>string[]\<close>, but the code
  tests it with \<open>Array.isArray\<close>: any other run-time value is \<open>NotArray\<close>.
\<close>

datatype externalGroupsArg = IsArray "string list" | NotArray

text \<open>
  Errors. \<open>BadDataError\<close> and \<open>NameExistsError\<close> are the two errors the service raises
  itself; \<open>TypeError\<close> is what JavaScript raises on a property read of \<open>undefined\<close>;
  a failure of a store call passes through the service unchanged and is tagged
  \<open>StoreError\<close> here, so that its origin stays visible.
\<close>

datatype error =
  BadDataError string
| NameExistsError string
| TypeError
| StoreError string

definition validation_error :: "error \<Rightarrow> bool" where
  "validation_error e =
     (case e of BadDataError _ \<Rightarrow> True | NameExistsError _ \<Rightarrow> True | _ \<Rightarrow> False)"

text \<open>JavaScript truthiness of an optional number: \<open>undefined\<close> and \<open>0\<close> are falsy.\<close>

definition truthy :: "int option \<Rightarrow> bool" where
  "truthy v = (case v of None \<Rightarrow> False | Some n \<Rightarrow> n \<noteq> 0)"

section \<open>The store interfaces\<close>

text \<open>
  Every call the service makes on \<open>groupStore\<close>, \<open>accountStore\<close> or \<open>eventStore\<close>
  is recorded, with its arguments, as a \<open>call\<close>.
\<close>

datatype call =
  GetAll
| GetAllUsersByGroups "int option list"
| GetGroupProjects "int option list"
| Get "int option"
| Create ICreateGroupModel
| AddUsersToGroup "int option" "ICreateGroupUserModel list" string
| Update ICreateGroupModel
| UpdateGroupUsers "int option" "ICreateGroupUserModel list" "IGroupUser list" string
| GetProjectGroupRoles "string option"
| GetAllWithId "int list"
| ExistsWithName string
| HasProjectRole "int option"
| GetNewGroupsForExternalUser int "string list"
| AddUserToGroups int "int option list" "string option"
| GetOldGroupsForExternalUser int "string list"
| DeleteUsersFromGroup "IGroupUser list"
| AccountGetAllWithId "int list"
| EventStore event

fun is_write :: "call \<Rightarrow> bool" where
  "is_write (Create _) = True"
| "is_write (AddUsersToGroup _ _ _) = True"
| "is_write (Update _) = True"
| "is_write (UpdateGroupUsers _ _ _ _) = True"
| "is_write (AddUserToGroups _ _ _) = True"
| "is_write (DeleteUsersFromGroup _) = True"
| "is_write (EventStore _) = True"
| "is_write _ = False"

fun is_membership_write :: "call \<Rightarrow> bool" where
  "is_membership_write (AddUsersToGroup _ _ _) = True"
| "is_membership_write (UpdateGroupUsers _ _ _ _) = True"
| "is_membership_write (AddUserToGroups _ _ _) = True"
| "is_membership_write (DeleteUsersFromGroup _) = True"
| "is_membership_write _ = False"

text \<open>
  The stores are injected collaborators (\<open>IGroupStore\<close>, \<open>IAccountStore\<close>,
  \<open>IEventStore\<close>), so the service is modelled over any implementation of them: a
  record of operations over a store state \<open>'s\<close>. A query reads the state and answers
  or fails; a command also returns the new state (which it may have changed even when it
  fails). The fields \<open>gs_\<close>, \<open>as_\<close> and \<open>es_\<close> are the methods of
  \<open>groupStore\<close>, \<open>accountStore\<close> and \<open>eventStore\<close>.
\<close>

record 's Stores =
  gs_getAll :: "'s \<Rightarrow> string + IGroup list"
  gs_getAllUsersByGroups :: "int option list \<Rightarrow> 's \<Rightarrow> string + IGroupUser list"
  gs_getGroupProjects :: "int option list \<Rightarrow> 's \<Rightarrow> string + IGroupProject list"
  gs_get :: "int option \<Rightarrow> 's \<Rightarrow> string + IGroup"
  gs_create :: "ICreateGroupModel \<Rightarrow> 's \<Rightarrow> (string + IGroup) \<times> 's"
  gs_addUsersToGroup ::
    "int option \<Rightarrow> ICreateGroupUserModel list \<Rightarrow> string \<Rightarrow> 's \<Rightarrow> (string + unit) \<times> 's"
  gs_update :: "ICreateGroupModel \<Rightarrow> 's \<Rightarrow> (string + IGroup) \<times> 's"
  gs_updateGroupUsers ::
    "int option \<Rightarrow> ICreateGroupUserModel list \<Rightarrow> IGroupUser list \<Rightarrow> string \<Rightarrow> 's
      \<Rightarrow> (string + unit) \<times> 's"
  gs_getProjectGroupRoles :: "string option \<Rightarrow> 's \<Rightarrow> string + IGroupRole list"
  gs_getAllWithId :: "int list \<Rightarrow> 's \<Rightarrow> string + IGroup list"
  gs_existsWithName :: "string \<Rightarrow> 's \<Rightarrow> string + bool"
  gs_hasProjectRole :: "int option \<Rightarrow> 's \<Rightarrow> string + bool"
  gs_getNewGroupsForExternalUser :: "int \<Rightarrow> string list \<Rightarrow> 's \<Rightarrow> string + IGroup list"
  gs_addUserToGroups ::
    "int \<Rightarrow> int option list \<Rightarrow> string option \<Rightarrow> 's \<Rightarrow> (string + unit) \<times> 's"
  gs_getOldGroupsForExternalUser ::
    "int \<Rightarrow> string list \<Rightarrow> 's \<Rightarrow> string + IGroupUser list"
  gs_deleteUsersFromGroup :: "IGroupUser list \<Rightarrow> 's \<Rightarrow> (string + unit) \<times> 's"
  as_getAllWithId :: "int list \<Rightarrow> 's \<Rightarrow> string + IUser list"
  es_store :: "event \<Rightarrow> 's \<Rightarrow> (string + unit) \<times> 's"

section \<open>Asynchronous service code as a computation\<close>

text \<open>
  An \<open>async\<close> method is a function from the store state to its outcome (the value
  returned, or the error thrown), the store state it leaves, and the store calls it made,
  in order. \<open>await\<close> sequences two steps; a thrown error skips the rest.
\<close>

type_synonym ('s, 'a) svc = "'s \<Rightarrow> (error + 'a) \<times> 's \<times> call list"

definition ret :: "'a \<Rightarrow> ('s, 'a) svc" where
  "ret x = (\<lambda>s. (Inr x, s, []))"

definition throw :: "error \<Rightarrow> ('s, 'a) svc" where
  "throw e = (\<lambda>s. (Inl e, s, []))"

definition await :: "('s, 'a) svc \<Rightarrow> ('a \<Rightarrow> ('s, 'b) svc) \<Rightarrow> ('s, 'b) svc" where
  "await m f = (\<lambda>s.
     case m s of
       (Inl e, s', tr) \<Rightarrow> (Inl e, s', tr)
     | (Inr x, s', tr) \<Rightarrow> (case f x s' of (r, s'', tr') \<Rightarrow> (r, s'', tr @ tr')))"

definition fromStore :: "string + 'a \<Rightarrow> error + 'a" where
  "fromStore r = (case r of Inl msg \<Rightarrow> Inl (StoreError msg) | Inr x \<Rightarrow> Inr x)"

definition storeQuery :: "call \<Rightarrow> ('s \<Rightarrow> string + 'a) \<Rightarrow> ('s, 'a) svc" where
  "storeQuery c q = (\<lambda>s. (fromStore (q s), s, [c]))"

definition storeCommand :: "call \<Rightarrow> ('s \<Rightarrow> (string + 'a) \<times> 's) \<Rightarrow> ('s, 'a) svc" where
  "storeCommand c w = (\<lambda>s. case w s of (r, s') \<Rightarrow> (fromStore r, s', [c]))"

definition outcome :: "(error + 'a) \<times> 's \<times> call list \<Rightarrow> error + 'a" where
  "outcome r = fst r"

definition final_state :: "(error + 'a) \<times> 's \<times> call list \<Rightarrow> 's" where
  "final_state r = fst (snd r)"

definition calls :: "(error + 'a) \<times> 's \<times> call list \<Rightarrow> call list" where
  "calls r = snd (snd r)"

text \<open>
  \<open>xs.map(f)\<close> with a callback that may throw: elements are mapped from left to
  right and the first error ends the loop.
\<close>

primrec mapE :: "('a \<Rightarrow> error + 'b) \<Rightarrow> 'a list \<Rightarrow> error + 'b list" where
  "mapE f [] = Inr []"
| "mapE f (x # xs) =
     (case f x of
        Inl e \<Rightarrow> Inl e
      | Inr y \<Rightarrow> (case mapE f xs of Inl e \<Rightarrow> Inl e | Inr ys \<Rightarrow> Inr (y # ys)))"

definition fromResult :: "error + 'a \<Rightarrow> ('s, 'a) svc" where
  "fromResult r = (\<lambda>s. (r, s, []))"

section \<open>GroupService\<close>

definition validateGroup ::
  "'s Stores \<Rightarrow> ICreateGroupModel \<Rightarrow> IGroup option \<Rightarrow> ('s, unit) svc" where
  "validateGroup st grp existingGroup =
     (if name grp = [] then throw (BadDataError ''Group name cannot be empty'')
      else
        await
          (if (case existingGroup of None \<Rightarrow> True | Some eg \<Rightarrow> name eg \<noteq> name grp)
           then await (storeQuery (ExistsWithName (name grp)) (gs_existsWithName st (name grp)))
                  (\<lambda>ex. if ex then throw (NameExistsError ''Group name already exists'')
                        else ret ())
           else ret ())
          (\<lambda>_. if truthy (group_id grp) \<and> truthy (rootRole grp)
                then await
                       (storeQuery (HasProjectRole (group_id grp))
                          (gs_hasProjectRole st (group_id grp)))
                       (\<lambda>has. if has then
                                 throw (BadDataError
                                   ''This group already has a project role and cannot also be given a root role'')
                               else ret ())
                else ret ()))"

definition createGroup ::
  "'s Stores \<Rightarrow> ICreateGroupModel \<Rightarrow> string \<Rightarrow> ('s, IGroup) svc" where
  "createGroup st grp userName =
     await (validateGroup st grp None) (\<lambda>_.
     await (storeCommand (Create grp) (gs_create st grp)) (\<lambda>newGroup.
     await (storeCommand (AddUsersToGroup (group_id newGroup) (users grp) userName)
              (gs_addUsersToGroup st (group_id newGroup) (users grp) userName)) (\<lambda>_.
     await (storeCommand (EventStore (GROUP_CREATED userName grp))
              (es_store st (GROUP_CREATED userName grp))) (\<lambda>_.
     ret newGroup))))"

definition updateGroup ::
  "'s Stores \<Rightarrow> ICreateGroupModel \<Rightarrow> string \<Rightarrow> ('s, IGroup) svc" where
  "updateGroup st grp userName =
     await (storeQuery (Get (group_id grp)) (gs_get st (group_id grp))) (\<lambda>preData.
     await (validateGroup st grp (Some preData)) (\<lambda>_.
     await (storeCommand (Update grp) (gs_update st grp)) (\<lambda>newGroup.
     await (storeQuery (GetAllUsersByGroups [group_id grp])
              (gs_getAllUsersByGroups st [group_id grp])) (\<lambda>existingUsers.
       let existingUserIds = map userId existingUsers;
           deletableUsers =
             filter (\<lambda>existingUser.
                       \<not> list_ex (\<lambda>groupUser. user_id (user groupUser) = userId existingUser)
                           (users grp))
               existingUsers;
           newUsers = filter (\<lambda>u. user_id (user u) \<notin> set existingUserIds) (users grp)
       in
     await (storeCommand (UpdateGroupUsers (group_id newGroup) newUsers deletableUsers userName)
              (gs_updateGroupUsers st (group_id newGroup) newUsers deletableUsers userName))
       (\<lambda>_.
     await (storeCommand (EventStore (GROUP_UPDATED userName newGroup preData))
              (es_store st (GROUP_UPDATED userName newGroup preData))) (\<lambda>_.
     ret newGroup))))))"

definition mapGroupWithUsers ::
  "IGroup \<Rightarrow> IGroupUser list \<Rightarrow> IUser list \<Rightarrow> error + IGroupModel" where
  "mapGroupWithUsers grp allGroupUsers allUsers =
     (let groupUsers = filter (\<lambda>u. Some (groupId u) = group_id grp) allGroupUsers;
          groupUsersId = map userId groupUsers;
          selectedUsers = filter (\<lambda>u. user_id u \<in> set groupUsersId) allUsers
      in case mapE (\<lambda>u.
                 case find (\<lambda>gu. userId gu = user_id u) groupUsers of
                   None \<Rightarrow> Inl TypeError
                 | Some roleUser \<Rightarrow>
                     Inr \<lparr>gum_user = u, gum_joinedAt = joinedAt roleUser,
                          gum_createdBy = createdBy roleUser\<rparr>)
               selectedUsers of
           Inl e \<Rightarrow> Inl e
         | Inr finalUsers \<Rightarrow>
             Inr \<lparr>gm_group = grp, gm_users = finalUsers, projects = None\<rparr>)"

definition mapGroupWithProjects :: "IGroupProject list \<Rightarrow> IGroupModel \<Rightarrow> IGroupModel" where
  "mapGroupWithProjects groupProjects grp =
     grp\<lparr>projects :=
           Some (map project
                   (filter (\<lambda>p. Some (gp_groupId p) = group_id (gm_group grp)) groupProjects))\<rparr>"

definition getAll :: "'s Stores \<Rightarrow> ('s, IGroupModel list) svc" where
  "getAll st =
     await (storeQuery GetAll (gs_getAll st)) (\<lambda>groups.
     await (storeQuery (GetAllUsersByGroups (map group_id groups))
              (gs_getAllUsersByGroups st (map group_id groups))) (\<lambda>allGroupUsers.
     await (storeQuery (AccountGetAllWithId (map userId allGroupUsers))
              (as_getAllWithId st (map userId allGroupUsers))) (\<lambda>allUsers.
     await (storeQuery (GetGroupProjects (map group_id groups))
              (gs_getGroupProjects st (map group_id groups))) (\<lambda>groupProjects.
     fromResult
       (mapE (\<lambda>grp.
                case mapGroupWithUsers grp allGroupUsers allUsers of
                  Inl e \<Rightarrow> Inl e
                | Inr mappedGroup \<Rightarrow> Inr (mapGroupWithProjects groupProjects mappedGroup))
          groups)))))"

definition getProjectGroups ::
  "'s Stores \<Rightarrow> string option \<Rightarrow> ('s, IGroupModelWithProjectRole list) svc" where
  "getProjectGroups st projectId =
     await (storeQuery (GetProjectGroupRoles projectId) (gs_getProjectGroupRoles st projectId))
       (\<lambda>groupRoles.
     if length groupRoles > 0 then
       await (storeQuery (GetAllWithId (map gr_groupId groupRoles))
                (gs_getAllWithId st (map gr_groupId groupRoles))) (\<lambda>groups.
       await (storeQuery (GetAllUsersByGroups (map group_id groups))
                (gs_getAllUsersByGroups st (map group_id groups))) (\<lambda>groupUsers.
       await (storeQuery (AccountGetAllWithId (map userId groupUsers))
                (as_getAllWithId st (map userId groupUsers))) (\<lambda>allUsers.
       fromResult
         (mapE (\<lambda>grp.
                  let groupRole = find (\<lambda>r. Some (gr_groupId r) = group_id grp) groupRoles
                  in case mapGroupWithUsers grp groupUsers allUsers of
                       Inl e \<Rightarrow> Inl e
                     | Inr m \<Rightarrow>
                         (case groupRole of
                            None \<Rightarrow> Inl TypeError
                          | Some r \<Rightarrow>
                              Inr \<lparr>pr_model = m, pr_roleId = roleId r,
                                   addedAt = createdAt r\<rparr>))
            groups))))
     else ret [])"

definition syncExternalGroups ::
  "'s Stores \<Rightarrow> int \<Rightarrow> externalGroupsArg \<Rightarrow> string option \<Rightarrow> ('s, unit) svc" where
  "syncExternalGroups st uid externalGroups creator =
     (case externalGroups of
        IsArray names \<Rightarrow>
          await (storeQuery (GetNewGroupsForExternalUser uid names)
                   (gs_getNewGroupsForExternalUser st uid names)) (\<lambda>newGroups.
          await (storeCommand (AddUserToGroups uid (map group_id newGroups) creator)
                   (gs_addUserToGroups st uid (map group_id newGroups) creator)) (\<lambda>_.
          await (storeQuery (GetOldGroupsForExternalUser uid names)
                   (gs_getOldGroupsForExternalUser st uid names)) (\<lambda>oldGroups.
          await (storeCommand (DeleteUsersFromGroup oldGroups)
                   (gs_deleteUsersFromGroup st oldGroups)) (\<lambda>_.
          ret ()))))
      | NotArray \<Rightarrow> ret ())"

section \<open>A relational store\<close>

text \<open>
  The store implementations behind \<open>IGroupStore\<close>, \<open>IAccountStore\<close> and
  \<open>IEventStore\<close> are not among the sources. The database below follows the data
  model of the specification: a table of groups with unique ids, membership rows
  (group, user), group-role rows (group, role, project), accounts, and the event log.
\<close>

record GroupRow =
  row_id :: int
  row_name :: string
  row_rootRole :: "int option"

record GroupRoleRow =
  grr_groupId :: int
  grr_roleId :: int
  grr_project :: string
  grr_createdAt :: int

record database =
  db_groups :: "GroupRow list"
  db_group_user :: "IGroupUser list"
  db_group_role :: "GroupRoleRow list"
  db_users :: "IUser list"
  db_events :: "event list"
  db_now :: int

definition rowToGroup :: "GroupRow \<Rightarrow> IGroup" where
  "rowToGroup r = \<lparr>group_id = Some (row_id r), name = row_name r, rootRole = row_rootRole r\<rparr>"

definition rowToGroupRole :: "GroupRoleRow \<Rightarrow> IGroupRole" where
  "rowToGroupRole r =
     \<lparr>gr_groupId = grr_groupId r, roleId = grr_roleId r, createdAt = grr_createdAt r\<rparr>"

text \<open>Modelled from the spec: \<open>groupStore.getAll\<close>, the store's listing of all groups.\<close>

definition db_getAll :: "database \<Rightarrow> string + IGroup list" where
  "db_getAll d = Inr (map rowToGroup (db_groups d))"

text \<open>Modelled from the spec: \<open>groupStore.getAllUsersByGroups\<close>, all membership rows
  for those groups.\<close>

definition db_getAllUsersByGroups :: "int option list \<Rightarrow> database \<Rightarrow> string + IGroupUser list" where
  "db_getAllUsersByGroups ids d =
     Inr (filter (\<lambda>m. Some (groupId m) \<in> set ids) (db_group_user d))"

text \<open>Modelled from the spec: \<open>groupStore.getGroupProjects\<close>, the group-project
  associations of those groups.\<close>

definition db_getGroupProjects ::
  "int option list \<Rightarrow> database \<Rightarrow> string + IGroupProject list" where
  "db_getGroupProjects ids d =
     Inr (map (\<lambda>r. \<lparr>gp_groupId = grr_groupId r, project = grr_project r\<rparr>)
            (filter (\<lambda>r. Some (grr_groupId r) \<in> set ids) (db_group_role d)))"

text \<open>Modelled from the spec: \<open>groupStore.get\<close>, which fails if the store has no group
  with that id.\<close>

definition db_get :: "int option \<Rightarrow> database \<Rightarrow> string + IGroup" where
  "db_get i d =
     (case find (\<lambda>r. Some (row_id r) = i) (db_groups d) of
        None \<Rightarrow> Inl ''NotFoundError''
      | Some r \<Rightarrow> Inr (rowToGroup r))"

text \<open>Modelled from the spec: \<open>groupStore.create\<close>, which persists the group under a
  fresh id and returns the persisted group.\<close>

definition db_create :: "ICreateGroupModel \<Rightarrow> database \<Rightarrow> (string + IGroup) \<times> database" where
  "db_create g d =
     (let r = \<lparr>row_id = 1 + foldr max (map row_id (db_groups d)) 0, row_name = name g,
                row_rootRole = rootRole g\<rparr>
      in (Inr (rowToGroup r), d\<lparr>db_groups := db_groups d @ [r]\<rparr>))"

text \<open>Modelled from the spec: \<open>groupStore.addUsersToGroup\<close>, which adds the supplied
  user list as members attributed to the actor.\<close>

definition db_addUsersToGroup ::
  "int option \<Rightarrow> ICreateGroupUserModel list \<Rightarrow> string \<Rightarrow> database
    \<Rightarrow> (string + unit) \<times> database" where
  "db_addUsersToGroup gid us userName d =
     (case gid of
        None \<Rightarrow> (Inl ''group id missing'', d)
      | Some i \<Rightarrow>
          (Inr (),
           d\<lparr>db_group_user := db_group_user d @
                map (\<lambda>u. \<lparr>groupId = i, userId = user_id (user u), joinedAt = db_now d,
                           createdBy = Some userName\<rparr>) us\<rparr>))"

text \<open>Modelled from the spec: \<open>groupStore.update\<close>, which persists the update of an
  existing group and returns the persisted group.\<close>

definition db_update :: "ICreateGroupModel \<Rightarrow> database \<Rightarrow> (string + IGroup) \<times> database" where
  "db_update g d =
     (case find (\<lambda>r. Some (row_id r) = group_id g) (db_groups d) of
        None \<Rightarrow> (Inl ''NotFoundError'', d)
      | Some r0 \<Rightarrow>
          (let r = r0\<lparr>row_name := name g, row_rootRole := rootRole g\<rparr>
           in (Inr (rowToGroup r),
               d\<lparr>db_groups := map (\<lambda>x. if row_id x = row_id r0 then r else x) (db_groups d)\<rparr>)))"

text \<open>Modelled from the spec: \<open>groupStore.deleteUsersFromGroup\<close>, which removes the
  given memberships.\<close>

definition db_deleteUsersFromGroup ::
  "IGroupUser list \<Rightarrow> database \<Rightarrow> (string + unit) \<times> database" where
  "db_deleteUsersFromGroup del d =
     (Inr (),
      d\<lparr>db_group_user :=
          filter (\<lambda>m. \<not> list_ex (\<lambda>x. groupId x = groupId m \<and> userId x = userId m) del)
            (db_group_user d)\<rparr>)"

text \<open>Modelled from the spec: \<open>groupStore.updateGroupUsers\<close>, which applies a
  membership diff, additions then removals.\<close>

definition db_updateGroupUsers ::
  "int option \<Rightarrow> ICreateGroupUserModel list \<Rightarrow> IGroupUser list \<Rightarrow> string \<Rightarrow> database
    \<Rightarrow> (string + unit) \<times> database" where
  "db_updateGroupUsers gid newUsers deletableUsers userName d =
     (case db_addUsersToGroup gid newUsers userName d of
        (Inl e, d') \<Rightarrow> (Inl e, d')
      | (Inr _, d') \<Rightarrow> db_deleteUsersFromGroup deletableUsers d')"

text \<open>Modelled from the spec: \<open>groupStore.getProjectGroupRoles\<close>, the group-role
  associations, optionally filtered by project.\<close>

definition db_getProjectGroupRoles ::
  "string option \<Rightarrow> database \<Rightarrow> string + IGroupRole list" where
  "db_getProjectGroupRoles projectId d =
     Inr (map rowToGroupRole
            (filter (\<lambda>r. case projectId of None \<Rightarrow> True | Some p \<Rightarrow> grr_project r = p)
               (db_group_role d)))"

text \<open>Modelled from the spec: \<open>groupStore.getAllWithId\<close>, the groups with those ids.\<close>

definition db_getAllWithId :: "int list \<Rightarrow> database \<Rightarrow> string + IGroup list" where
  "db_getAllWithId ids d =
     Inr (map rowToGroup (filter (\<lambda>r. row_id r \<in> set ids) (db_groups d)))"

text \<open>Modelled from the spec: \<open>groupStore.existsWithName\<close>, the name-existence check.\<close>

definition db_existsWithName :: "string \<Rightarrow> database \<Rightarrow> string + bool" where
  "db_existsWithName n d = Inr (n \<in> set (map row_name (db_groups d)))"

text \<open>Modelled from the spec: \<open>groupStore.hasProjectRole\<close>, whether the group has a
  project role on record.\<close>

definition db_hasProjectRole :: "int option \<Rightarrow> database \<Rightarrow> string + bool" where
  "db_hasProjectRole i d = Inr (list_ex (\<lambda>r. Some (grr_groupId r) = i) (db_group_role d))"

text \<open>Modelled from the spec: \<open>groupStore.getNewGroupsForExternalUser\<close>, the groups
  newly implied by the external list (not currently associated with the user). How an
  external name implies a group is the parameter \<open>implied\<close>.\<close>

definition db_getNewGroupsForExternalUser ::
  "(IGroup \<Rightarrow> string list \<Rightarrow> bool) \<Rightarrow> int \<Rightarrow> string list \<Rightarrow> database \<Rightarrow> string + IGroup list"
  where
  "db_getNewGroupsForExternalUser implied uid names d =
     Inr (map rowToGroup
            (filter (\<lambda>r. implied (rowToGroup r) names \<and>
                         \<not> list_ex (\<lambda>m. groupId m = row_id r \<and> userId m = uid) (db_group_user d))
               (db_groups d)))"

text \<open>Modelled from the spec: \<open>groupStore.addUserToGroups\<close>, which adds the user to
  the given groups attributed to the actor.\<close>

definition db_addUserToGroups ::
  "int \<Rightarrow> int option list \<Rightarrow> string option \<Rightarrow> database \<Rightarrow> (string + unit) \<times> database" where
  "db_addUserToGroups uid groupIds creator d =
     (case those groupIds of
        None \<Rightarrow> (Inl ''group id missing'', d)
      | Some ids \<Rightarrow>
          (Inr (),
           d\<lparr>db_group_user := db_group_user d @
                map (\<lambda>i. \<lparr>groupId = i, userId = uid, joinedAt = db_now d,
                           createdBy = creator\<rparr>) ids\<rparr>))"

text \<open>Modelled from the spec: \<open>groupStore.getOldGroupsForExternalUser\<close>, the
  memberships of the user in groups no longer implied by the external list.\<close>

definition db_getOldGroupsForExternalUser ::
  "(IGroup \<Rightarrow> string list \<Rightarrow> bool) \<Rightarrow> int \<Rightarrow> string list \<Rightarrow> database
    \<Rightarrow> string + IGroupUser list" where
  "db_getOldGroupsForExternalUser implied uid names d =
     Inr (filter (\<lambda>m. userId m = uid \<and>
                      \<not> list_ex (\<lambda>r. row_id r = groupId m \<and> implied (rowToGroup r) names)
                          (db_groups d))
            (db_group_user d))"

text \<open>Modelled from the spec: \<open>accountStore.getAllWithId\<close>, the bulk user lookup by
  id list.\<close>

definition db_accounts_getAllWithId :: "int list \<Rightarrow> database \<Rightarrow> string + IUser list" where
  "db_accounts_getAllWithId ids d = Inr (filter (\<lambda>u. user_id u \<in> set ids) (db_users d))"

text \<open>Modelled from the spec: \<open>eventStore.store\<close>, the append-only event log.\<close>

definition db_events_store :: "event \<Rightarrow> database \<Rightarrow> (string + unit) \<times> database" where
  "db_events_store e d = (Inr (), d\<lparr>db_events := db_events d @ [e]\<rparr>)"

definition dbStores :: "(IGroup \<Rightarrow> string list \<Rightarrow> bool) \<Rightarrow> database Stores" where
  "dbStores implied =
     \<lparr>gs_getAll = db_getAll,
      gs_getAllUsersByGroups = db_getAllUsersByGroups,
      gs_getGroupProjects = db_getGroupProjects,
      gs_get = db_get,
      gs_create = db_create,
      gs_addUsersToGroup = db_addUsersToGroup,
      gs_update = db_update,
      gs_updateGroupUsers = db_updateGroupUsers,
      gs_getProjectGroupRoles = db_getProjectGroupRoles,
      gs_getAllWithId = db_getAllWithId,
      gs_existsWithName = db_existsWithName,
      gs_hasProjectRole = db_hasProjectRole,
      gs_getNewGroupsForExternalUser = db_getNewGroupsForExternalUser implied,
      gs_addUserToGroups = db_addUserToGroups,
      gs_getOldGroupsForExternalUser = db_getOldGroupsForExternalUser implied,
      gs_deleteUsersFromGroup = db_deleteUsersFromGroup,
      as_getAllWithId = db_accounts_getAllWithId,
      es_store = db_events_store\<rparr>"

text \<open>An external name implies the group of that name.\<close>

definition impliedByName :: "IGroup \<Rightarrow> string list \<Rightarrow> bool" where
  "impliedByName g names = (name g \<in> set names)"

section \<open>Error values and example data\<close>

abbreviation emptyNameError :: error where
  "emptyNameError \<equiv> BadDataError ''Group name cannot be empty''"

abbreviation nameExistsError :: error where
  "nameExistsError \<equiv> NameExistsError ''Group name already exists''"

abbreviation roleConflictError :: error where
  "roleConflictError \<equiv> BadDataError
     ''This group already has a project role and cannot also be given a root role''"

definition userA :: IUser where "userA = \<lparr>user_id = 1, username = ''A''\<rparr>"
definition userB :: IUser where "userB = \<lparr>user_id = 2, username = ''B''\<rparr>"
definition userC :: IUser where "userC = \<lparr>user_id = 3, username = ''C''\<rparr>"
definition userD :: IUser where "userD = \<lparr>user_id = 4, username = ''D''\<rparr>"

definition member :: "int \<Rightarrow> int \<Rightarrow> IGroupUser" where
  "member g u = \<lparr>groupId = g, userId = u, joinedAt = 7, createdBy = Some ''root''\<rparr>"

text \<open>
  Two groups: \<open>devs\<close> (id 1) with members A, B and C, and \<open>ops\<close> (id 2) with
  member A and a project role in project \<open>default\<close>.
\<close>

definition exampleDb :: database where
  "exampleDb =
     \<lparr>db_groups = [\<lparr>row_id = 1, row_name = ''devs'', row_rootRole = None\<rparr>,
                   \<lparr>row_id = 2, row_name = ''ops'', row_rootRole = None\<rparr>],
      db_group_user = [member 1 1, member 1 2, member 1 3, member 2 1],
      db_group_role = [\<lparr>grr_groupId = 2, grr_roleId = 5, grr_project = ''default'',
                         grr_createdAt = 3\<rparr>],
      db_users = [userA, userB, userC, userD],
      db_events = [],
      db_now = 100\<rparr>"

abbreviation exampleStores :: "database Stores" where
  "exampleStores \<equiv> dbStores impliedByName"

definition groupInput ::
  "int option \<Rightarrow> string \<Rightarrow> int option \<Rightarrow> IUser list \<Rightarrow> ICreateGroupModel" where
  "groupInput i n r us =
     \<lparr>group_id = i, name = n, rootRole = r, users = map (\<lambda>u. \<lparr>user = u\<rparr>) us\<rparr>"

definition devsGroup :: IGroup where
  "devsGroup = \<lparr>group_id = Some 1, name = ''devs'', rootRole = None\<rparr>"

definition opsGroup :: IGroup where
  "opsGroup = \<lparr>group_id = Some 2, name = ''ops'', rootRole = None\<rparr>"

definition desiredBCD :: ICreateGroupModel where
  "desiredBCD = groupInput (Some 1) ''devs'' None [userB, userC, userD]"

section \<open>Specification-side views\<close>

text \<open>
  The members of a group as the specification describes them: every resolved user for
  whom a membership row carries the group's id, with that row's \<open>joinedAt\<close> and
  \<open>createdBy\<close> (the first such row, should the store hold several).
\<close>

definition membersOf :: "IGroup \<Rightarrow> IGroupUser list \<Rightarrow> IUser list \<Rightarrow> IGroupUserModel list" where
  "membersOf g rows accounts =
     List.map_filter
       (\<lambda>u. case find (\<lambda>r. Some (groupId r) = group_id g \<and> userId r = user_id u) rows of
               None \<Rightarrow> None
             | Some r \<Rightarrow>
                 Some \<lparr>gum_user = u, gum_joinedAt = joinedAt r, gum_createdBy = createdBy r\<rparr>)
       accounts"

text \<open>
  The projects of a group: the project ids of the group-project associations that carry
  the group's id.
\<close>

definition projectsOf :: "IGroup \<Rightarrow> IGroupProject list \<Rightarrow> string list" where
  "projectsOf g groupProjects =
     map project (filter (\<lambda>p. Some (gp_groupId p) = group_id g) groupProjects)"

text \<open>
  The membership rows after one reconciliation of user \<open>uid\<close> against the groups that
  satisfy \<open>imp\<close>: rows for the implied groups the user is not yet in are appended,
  then the user's rows in groups that are not implied are removed.
\<close>

definition reconciled ::
  "(GroupRow \<Rightarrow> bool) \<Rightarrow> int \<Rightarrow> int \<Rightarrow> string option \<Rightarrow> GroupRow list \<Rightarrow> IGroupUser list
    \<Rightarrow> IGroupUser list" where
  "reconciled imp uid t c G M =
     (let new = filter (\<lambda>r. imp r \<and> \<not> list_ex (\<lambda>m. groupId m = row_id r \<and> userId m = uid) M) G;
          M' = M @ map (\<lambda>i. \<lparr>groupId = i, userId = uid, joinedAt = t, createdBy = c\<rparr>)
                     (map row_id new);
          old = filter (\<lambda>m. userId m = uid \<and> \<not> list_ex (\<lambda>r. row_id r = groupId m \<and> imp r) G) M'
      in filter (\<lambda>m. \<not> list_ex (\<lambda>x. groupId x = groupId m \<and> userId x = userId m) old) M')"

section \<open>Running a computation\<close>

lemma outcome_ret: "outcome (ret x s) = Inr x"
  and final_state_ret: "final_state (ret x s) = s"
  and calls_ret: "calls (ret x s) = []"
  by (simp_all add: ret_def outcome_def final_state_def calls_def)

lemma outcome_throw: "outcome (throw e s) = Inl e"
  and final_state_throw: "final_state (throw e s) = s"
  and calls_throw: "calls (throw e s) = []"
  by (simp_all add: throw_def outcome_def final_state_def calls_def)

lemma outcome_fromResult: "outcome (fromResult r s) = r"
  and final_state_fromResult: "final_state (fromResult r s) = s"
  and calls_fromResult: "calls (fromResult r s) = []"
  by (simp_all add: fromResult_def outcome_def final_state_def calls_def)

lemma outcome_storeQuery: "outcome (storeQuery c q s) = fromStore (q s)"
  and final_state_storeQuery: "final_state (storeQuery c q s) = s"
  and calls_storeQuery: "calls (storeQuery c q s) = [c]"
  by (simp_all add: storeQuery_def outcome_def final_state_def calls_def)

lemma outcome_storeCommand: "outcome (storeCommand c w s) = fromStore (fst (w s))"
  and final_state_storeCommand: "final_state (storeCommand c w s) = snd (w s)"
  and calls_storeCommand: "calls (storeCommand c w s) = [c]"
  by (simp_all add: storeCommand_def outcome_def final_state_def calls_def split: prod.splits)

lemma outcome_await:
  "outcome (await m f s) =
     (case outcome (m s) of Inl e \<Rightarrow> Inl e | Inr x \<Rightarrow> outcome (f x (final_state (m s))))"
  by (simp add: await_def outcome_def final_state_def split: prod.splits sum.splits)

lemma final_state_await:
  "final_state (await m f s) =
     (case outcome (m s) of
        Inl e \<Rightarrow> final_state (m s)
      | Inr x \<Rightarrow> final_state (f x (final_state (m s))))"
  by (simp add: await_def outcome_def final_state_def split: prod.splits sum.splits)

lemma calls_await:
  "calls (await m f s) =
     calls (m s) @
     (case outcome (m s) of Inl e \<Rightarrow> [] | Inr x \<Rightarrow> calls (f x (final_state (m s))))"
  by (simp add: await_def outcome_def final_state_def calls_def split: prod.splits sum.splits)

lemma run_eq: "r = (outcome r, final_state r, calls r)"
  by (simp add: outcome_def final_state_def calls_def)

lemmas run_simps =
  outcome_ret final_state_ret calls_ret outcome_throw final_state_throw calls_throw
  outcome_fromResult final_state_fromResult calls_fromResult
  outcome_storeQuery final_state_storeQuery calls_storeQuery
  outcome_storeCommand final_state_storeCommand calls_storeCommand
  outcome_await final_state_await calls_await

lemma fromStore_simps:
  "fromStore (Inl msg) = Inl (StoreError msg)" "fromStore (Inr x) = Inr x"
  by (simp_all add: fromStore_def)

lemma fromStore_Inr_iff: "fromStore r = Inr x \<longleftrightarrow> r = Inr x"
  by (cases r) (simp_all add: fromStore_def)

lemma fromStore_Inl_iff: "fromStore r = Inl e \<longleftrightarrow> (\<exists>msg. r = Inl msg \<and> e = StoreError msg)"
  by (cases r) (auto simp: fromStore_def)

lemma validation_error_simps:
  "validation_error (BadDataError m)" "validation_error (NameExistsError m)"
  "\<not> validation_error TypeError" "\<not> validation_error (StoreError m)"
  by (simp_all add: validation_error_def)

lemma fromStore_not_validation: "fromStore r = Inl e \<Longrightarrow> \<not> validation_error e"
  by (auto simp: fromStore_Inl_iff validation_error_simps)

text \<open>Evaluation of the relational store on concrete data.\<close>

lemma dbStores_simps:
  "gs_getAll (dbStores implied) = db_getAll"
  "gs_getAllUsersByGroups (dbStores implied) = db_getAllUsersByGroups"
  "gs_getGroupProjects (dbStores implied) = db_getGroupProjects"
  "gs_get (dbStores implied) = db_get"
  "gs_create (dbStores implied) = db_create"
  "gs_addUsersToGroup (dbStores implied) = db_addUsersToGroup"
  "gs_update (dbStores implied) = db_update"
  "gs_updateGroupUsers (dbStores implied) = db_updateGroupUsers"
  "gs_getProjectGroupRoles (dbStores implied) = db_getProjectGroupRoles"
  "gs_getAllWithId (dbStores implied) = db_getAllWithId"
  "gs_existsWithName (dbStores implied) = db_existsWithName"
  "gs_hasProjectRole (dbStores implied) = db_hasProjectRole"
  "gs_getNewGroupsForExternalUser (dbStores implied) = db_getNewGroupsForExternalUser implied"
  "gs_addUserToGroups (dbStores implied) = db_addUserToGroups"
  "gs_getOldGroupsForExternalUser (dbStores implied) = db_getOldGroupsForExternalUser implied"
  "gs_deleteUsersFromGroup (dbStores implied) = db_deleteUsersFromGroup"
  "as_getAllWithId (dbStores implied) = db_accounts_getAllWithId"
  "es_store (dbStores implied) = db_events_store"
  by (simp_all add: dbStores_def)

lemmas db_defs =
  dbStores_simps db_getAll_def db_getAllUsersByGroups_def db_getGroupProjects_def db_get_def
  db_create_def db_addUsersToGroup_def db_update_def db_deleteUsersFromGroup_def
  db_updateGroupUsers_def db_getProjectGroupRoles_def db_getAllWithId_def
  db_existsWithName_def db_hasProjectRole_def db_getNewGroupsForExternalUser_def
  db_addUserToGroups_def db_getOldGroupsForExternalUser_def db_accounts_getAllWithId_def
  db_events_store_def rowToGroup_def rowToGroupRole_def impliedByName_def

lemmas example_defs =
  exampleDb_def groupInput_def member_def userA_def userB_def userC_def userD_def
  devsGroup_def opsGroup_def desiredBCD_def

section \<open>Validation\<close>

lemma validateGroup_state: "final_state (validateGroup st grp existing s) = s"
  by (simp add: validateGroup_def run_simps split: sum.splits)

lemma validateGroup_no_write: "filter is_write (calls (validateGroup st grp existing s)) = []"
  by (simp add: validateGroup_def run_simps split: sum.splits)

text \<open>
  C4. For every input group whose name is empty, \<open>createGroup\<close> fails with the
  data-validation error \<open>Group name cannot be empty\<close>, whatever the other fields, the
  stores and their state are; no store call is made and the state is unchanged.
\<close>

theorem createGroup_empty_name:
  "name grp = [] \<Longrightarrow> createGroup st grp userName s = (Inl emptyNameError, s, [])"
  by (subst run_eq) (simp add: createGroup_def validateGroup_def run_simps)

theorem createGroup_empty_name_witness:
  "name (groupInput None [] (Some 1) [userA, userB]) = [] \<and>
   createGroup exampleStores (groupInput None [] (Some 1) [userA, userB]) ''admin'' exampleDb =
     (Inl emptyNameError, exampleDb, [])"
  using createGroup_empty_name
    [of "groupInput None [] (Some 1) [userA, userB]" exampleStores "''admin''" exampleDb]
  by (simp add: groupInput_def)

text \<open>
  C9. When the \<open>externalGroups\<close> argument of \<open>syncExternalGroups\<close> is not an
  array, the call is a no-op: it returns normally, makes no store call at all (neither a
  query nor a command) and leaves the store state as it was.
\<close>

theorem syncExternalGroups_not_array:
  "syncExternalGroups st uid NotArray creator s = (Inr (), s, [])"
  by (simp add: syncExternalGroups_def ret_def)

theorem syncExternalGroups_not_array_witness:
  "syncExternalGroups exampleStores 1 NotArray (Some ''sso'') exampleDb = (Inr (), exampleDb, [])"
  by (rule syncExternalGroups_not_array)

text \<open>
  C8. When the store reports no group-role associations (for the given project id, or
  for none given), \<open>getProjectGroups\<close> returns the empty list and raises no error; the
  only store call is that one query.
\<close>

theorem getProjectGroups_empty:
  "gs_getProjectGroupRoles st projectId s = Inr [] \<Longrightarrow>
   getProjectGroups st projectId s = (Inr [], s, [GetProjectGroupRoles projectId])"
  by (subst run_eq) (simp add: getProjectGroups_def run_simps fromStore_simps)

theorem getProjectGroups_empty_witness:
  "gs_getProjectGroupRoles exampleStores (Some ''other'') exampleDb = Inr [] \<and>
   getProjectGroups exampleStores (Some ''other'') exampleDb =
     (Inr [], exampleDb, [GetProjectGroupRoles (Some ''other'')]) \<and>
   gs_getProjectGroupRoles exampleStores None (exampleDb\<lparr>db_group_role := []\<rparr>) = Inr [] \<and>
   getProjectGroups exampleStores None (exampleDb\<lparr>db_group_role := []\<rparr>) =
     (Inr [], exampleDb\<lparr>db_group_role := []\<rparr>, [GetProjectGroupRoles None])"
proof -
  have h1: "gs_getProjectGroupRoles exampleStores (Some ''other'') exampleDb = Inr []"
    by (simp add: db_defs example_defs)
  have h2: "gs_getProjectGroupRoles exampleStores None (exampleDb\<lparr>db_group_role := []\<rparr>) = Inr []"
    by (simp add: db_defs example_defs)
  show ?thesis
    using h1 h2 getProjectGroups_empty[OF h1] getProjectGroups_empty[OF h2] by simp
qed







lemma createGroup_validation_error:
  assumes "outcome (createGroup st grp userName s) = Inl e" "validation_error e"
  shows "final_state (createGroup st grp userName s) = s \<and>
         filter is_write (calls (createGroup st grp userName s)) = []"
  using assms validateGroup_state[of st grp None s] validateGroup_no_write[of st grp None s]
  by (auto simp add: createGroup_def run_simps split: sum.splits dest: fromStore_not_validation)

lemma updateGroup_validation_error:
  assumes "outcome (updateGroup st grp userName s) = Inl e" "validation_error e"
  shows "final_state (updateGroup st grp userName s) = s \<and>
         filter is_write (calls (updateGroup st grp userName s)) = []"
  using assms
  by (auto simp add: updateGroup_def run_simps Let_def validateGroup_state validateGroup_no_write
      split: sum.splits dest: fromStore_not_validation)

text \<open>
  C3. When \<open>createGroup\<close> or \<open>updateGroup\<close> fails with one of the two errors the
  service raises itself (\<open>BadDataError\<close>, \<open>NameExistsError\<close>), the store state is the
  one the call started from and the call has issued no store command: the only store
  calls made are queries.
\<close>

theorem validation_failure_before_any_write:
  assumes "validation_error e"
  shows "(outcome (createGroup st grp userName s) = Inl e \<longrightarrow>
            final_state (createGroup st grp userName s) = s \<and>
            filter is_write (calls (createGroup st grp userName s)) = []) \<and>
         (outcome (updateGroup st grp' userName' s') = Inl e \<longrightarrow>
            final_state (updateGroup st grp' userName' s') = s' \<and>
            filter is_write (calls (updateGroup st grp' userName' s')) = [])"
proof (intro conjI impI)
  assume "outcome (createGroup st grp userName s) = Inl e"
  from createGroup_validation_error[OF this assms]
  show "final_state (createGroup st grp userName s) = s"
    and "filter is_write (calls (createGroup st grp userName s)) = []"
    by (rule conjunct1, rule conjunct2)
next
  assume "outcome (updateGroup st grp' userName' s') = Inl e"
  from updateGroup_validation_error[OF this assms]
  show "final_state (updateGroup st grp' userName' s') = s'"
    and "filter is_write (calls (updateGroup st grp' userName' s')) = []"
    by (rule conjunct1, rule conjunct2)
qed

lemma example_create_collision:
  "outcome (createGroup exampleStores (groupInput None ''devs'' None [userD]) ''admin'' exampleDb)
     = Inl nameExistsError"
  by (simp add: createGroup_def validateGroup_def run_simps fromStore_simps db_defs example_defs)

lemma example_update_collision:
  "outcome (updateGroup exampleStores (groupInput (Some 2) ''devs'' None [userD]) ''admin''
      exampleDb) = Inl nameExistsError"
  by (simp add: updateGroup_def validateGroup_def run_simps fromStore_simps db_defs example_defs)

theorem validation_failure_before_any_write_witness:
  "validation_error nameExistsError \<and>
   outcome (createGroup exampleStores (groupInput None ''devs'' None [userD]) ''admin'' exampleDb)
     = Inl nameExistsError \<and>
   final_state (createGroup exampleStores (groupInput None ''devs'' None [userD]) ''admin''
     exampleDb) = exampleDb \<and>
   filter is_write (calls (createGroup exampleStores (groupInput None ''devs'' None [userD])
     ''admin'' exampleDb)) = [] \<and>
   outcome (updateGroup exampleStores (groupInput (Some 2) ''devs'' None [userD]) ''admin''
     exampleDb) = Inl nameExistsError \<and>
   final_state (updateGroup exampleStores (groupInput (Some 2) ''devs'' None [userD]) ''admin''
     exampleDb) = exampleDb \<and>
   filter is_write (calls (updateGroup exampleStores (groupInput (Some 2) ''devs'' None [userD])
     ''admin'' exampleDb)) = []"
proof -
  have v: "validation_error nameExistsError"
    by (simp add: validation_error_simps)
  show ?thesis
    using v example_create_collision example_update_collision
      validation_failure_before_any_write[OF v, of exampleStores
        "groupInput None ''devs'' None [userD]" "''admin''" exampleDb
        "groupInput (Some 2) ''devs'' None [userD]" "''admin''" exampleDb]
    by simp
qed

section \<open>Membership diff of updateGroup\<close>

lemma validateGroup_no_membership_write:
  "filter is_membership_write (calls (validateGroup st grp existing s)) = []"
  by (simp add: validateGroup_def run_simps split: sum.splits)

lemma updateGroup_membership_calls:
  assumes "gs_get st (group_id grp) s = Inr preData"
      and "outcome (validateGroup st grp (Some preData) s) = Inr ()"
      and "gs_update st grp s = (Inr newGroup, s1)"
      and "gs_getAllUsersByGroups st [group_id grp] s1 = Inr existing"
  shows "filter is_membership_write (calls (updateGroup st grp userName s)) =
           [UpdateGroupUsers (group_id newGroup)
              (filter (\<lambda>u. user_id (user u) \<notin> set (map userId existing)) (users grp))
              (filter (\<lambda>m. \<not> list_ex (\<lambda>u. user_id (user u) = userId m) (users grp)) existing)
              userName]"
  using assms
  by (simp add: updateGroup_def run_simps Let_def fromStore_simps validateGroup_state
      validateGroup_no_membership_write split: sum.splits)

text \<open>
  C1. When \<open>updateGroup\<close> gets as far as the membership update (the prior state is
  found, validation passes, the update is persisted and the store reports the existing
  membership rows \<open>existing\<close>), the only membership command it issues is one
  \<open>updateGroupUsers\<close> call. The users it adds are exactly the desired users whose id
  is not among the existing members, the rows it removes are exactly the existing rows
  whose user id is not among the desired users, and a user who is in both is neither
  added nor removed.
\<close>

theorem updateGroup_membership_diff:
  assumes "gs_get st (group_id grp) s = Inr preData"
      and "outcome (validateGroup st grp (Some preData) s) = Inr ()"
      and "gs_update st grp s = (Inr newGroup, s1)"
      and "gs_getAllUsersByGroups st [group_id grp] s1 = Inr existing"
  shows "\<exists>added removed.
           filter is_membership_write (calls (updateGroup st grp userName s)) =
             [UpdateGroupUsers (group_id newGroup) added removed userName] \<and>
           set added = {u \<in> set (users grp). user_id (user u) \<notin> userId ` set existing} \<and>
           set removed =
             {m \<in> set existing. userId m \<notin> (\<lambda>u. user_id (user u)) ` set (users grp)} \<and>
           (\<forall>i \<in> userId ` set existing \<inter> (\<lambda>u. user_id (user u)) ` set (users grp).
              i \<notin> (\<lambda>u. user_id (user u)) ` set added \<and> i \<notin> userId ` set removed)"
proof (intro exI conjI)
  show "filter is_membership_write (calls (updateGroup st grp userName s)) =
           [UpdateGroupUsers (group_id newGroup)
              (filter (\<lambda>u. user_id (user u) \<notin> set (map userId existing)) (users grp))
              (filter (\<lambda>m. \<not> list_ex (\<lambda>u. user_id (user u) = userId m) (users grp)) existing)
              userName]"
    by (rule updateGroup_membership_calls[OF assms])
  show "set (filter (\<lambda>u. user_id (user u) \<notin> set (map userId existing)) (users grp)) =
          {u \<in> set (users grp). user_id (user u) \<notin> userId ` set existing}"
    by simp
  show "set (filter (\<lambda>m. \<not> list_ex (\<lambda>u. user_id (user u) = userId m) (users grp)) existing) =
          {m \<in> set existing. userId m \<notin> (\<lambda>u. user_id (user u)) ` set (users grp)}"
    by (force simp: list_ex_iff image_iff)
  show "\<forall>i \<in> userId ` set existing \<inter> (\<lambda>u. user_id (user u)) ` set (users grp).
          i \<notin> (\<lambda>u. user_id (user u)) `
                set (filter (\<lambda>u. user_id (user u) \<notin> set (map userId existing)) (users grp)) \<and>
          i \<notin> userId `
                set (filter (\<lambda>m. \<not> list_ex (\<lambda>u. user_id (user u) = userId m) (users grp))
                       existing)"
    by (force simp: list_ex_iff image_iff)
qed

lemma ex1_get: "gs_get exampleStores (group_id desiredBCD) exampleDb = Inr devsGroup"
  by (simp add: db_defs example_defs)

lemma ex1_valid: "outcome (validateGroup exampleStores desiredBCD (Some devsGroup) exampleDb) = Inr ()"
  by (simp add: validateGroup_def run_simps truthy_def fromStore_simps db_defs example_defs)

lemma ex1_update: "gs_update exampleStores desiredBCD exampleDb = (Inr devsGroup, exampleDb)"
  by (simp add: db_defs example_defs)

lemma ex1_existing:
  "gs_getAllUsersByGroups exampleStores [group_id desiredBCD] exampleDb =
     Inr [member 1 1, member 1 2, member 1 3]"
  by (simp add: db_defs example_defs)

lemma ex1_run:
  "filter is_membership_write (calls (updateGroup exampleStores desiredBCD ''admin'' exampleDb)) =
     [UpdateGroupUsers (Some 1) [\<lparr>user = userD\<rparr>] [member 1 1] ''admin'']"
  "db_group_user (final_state (updateGroup exampleStores desiredBCD ''admin'' exampleDb)) =
     [member 1 2, member 1 3, member 2 1,
      \<lparr>groupId = 1, userId = 4, joinedAt = 100, createdBy = Some ''admin''\<rparr>]"
  by (simp_all add: updateGroup_def validateGroup_def run_simps truthy_def fromStore_simps
      Let_def db_defs example_defs)

theorem updateGroup_membership_diff_witness:
  "gs_get exampleStores (group_id desiredBCD) exampleDb = Inr devsGroup \<and>
   outcome (validateGroup exampleStores desiredBCD (Some devsGroup) exampleDb) = Inr () \<and>
   gs_update exampleStores desiredBCD exampleDb = (Inr devsGroup, exampleDb) \<and>
   gs_getAllUsersByGroups exampleStores [group_id desiredBCD] exampleDb =
     Inr [member 1 1, member 1 2, member 1 3] \<and>
   (\<exists>added removed.
      filter is_membership_write (calls (updateGroup exampleStores desiredBCD ''admin'' exampleDb)) =
        [UpdateGroupUsers (group_id devsGroup) added removed ''admin''] \<and>
      set added = {u \<in> set (users desiredBCD).
                     user_id (user u) \<notin> userId ` set [member 1 1, member 1 2, member 1 3]} \<and>
      set removed = {m \<in> set [member 1 1, member 1 2, member 1 3].
                       userId m \<notin> (\<lambda>u. user_id (user u)) ` set (users desiredBCD)}) \<and>
   filter is_membership_write (calls (updateGroup exampleStores desiredBCD ''admin'' exampleDb)) =
     [UpdateGroupUsers (Some 1) [\<lparr>user = userD\<rparr>] [member 1 1] ''admin''] \<and>
   db_group_user (final_state (updateGroup exampleStores desiredBCD ''admin'' exampleDb)) =
     [member 1 2, member 1 3, member 2 1,
      \<lparr>groupId = 1, userId = 4, joinedAt = 100, createdBy = Some ''admin''\<rparr>]"
proof -
  from updateGroup_membership_diff[OF ex1_get ex1_valid ex1_update ex1_existing, of "''admin''"]
  have "\<exists>added removed.
      filter is_membership_write (calls (updateGroup exampleStores desiredBCD ''admin'' exampleDb)) =
        [UpdateGroupUsers (group_id devsGroup) added removed ''admin''] \<and>
      set added = {u \<in> set (users desiredBCD).
                     user_id (user u) \<notin> userId ` set [member 1 1, member 1 2, member 1 3]} \<and>
      set removed = {m \<in> set [member 1 1, member 1 2, member 1 3].
                       userId m \<notin> (\<lambda>u. user_id (user u)) ` set (users desiredBCD)}"
    by blast
  with ex1_get ex1_valid ex1_update ex1_existing ex1_run show ?thesis
    by (intro conjI)
qed

section \<open>Group listing\<close>

lemma find_filter: "find P (filter Q xs) = find (\<lambda>x. Q x \<and> P x) xs"
  by (induction xs) simp_all

lemma find_None_set: "find P xs = None \<longleftrightarrow> (\<forall>x\<in>set xs. \<not> P x)"
  by (induction xs) simp_all

lemma mapE_members:
  "mapE (\<lambda>u. case find (\<lambda>gu. userId gu = user_id u)
                    (filter (\<lambda>r. Some (groupId r) = group_id g) rows) of
                None \<Rightarrow> Inl TypeError
              | Some roleUser \<Rightarrow>
                  Inr \<lparr>gum_user = u, gum_joinedAt = joinedAt roleUser,
                       gum_createdBy = createdBy roleUser\<rparr>)
     (filter (\<lambda>u. user_id u \<in> set (map userId (filter (\<lambda>r. Some (groupId r) = group_id g) rows)))
        accounts)
   = Inr (membersOf g rows accounts)"
proof (induction accounts)
  case Nil
  show ?case by (simp add: membersOf_def map_filter_simps)
next
  case (Cons u us)
  show ?case
  proof (cases "find (\<lambda>r. Some (groupId r) = group_id g \<and> userId r = user_id u) rows")
    case None
    then have "user_id u \<notin> set (map userId (filter (\<lambda>r. Some (groupId r) = group_id g) rows))"
      by (auto simp: find_None_set)
    with None Cons show ?thesis
      by (simp add: membersOf_def map_filter_simps)
  next
    case (Some r)
    then have "user_id u \<in> set (map userId (filter (\<lambda>r. Some (groupId r) = group_id g) rows))"
      by (force simp: find_Some_iff image_iff)
    with Some Cons show ?thesis
      by (simp add: membersOf_def map_filter_simps find_filter)
  qed
qed

lemma mapGroupWithUsers_eq:
  "mapGroupWithUsers g rows accounts =
     Inr \<lparr>gm_group = g, gm_users = membersOf g rows accounts, projects = None\<rparr>"
  unfolding mapGroupWithUsers_def Let_def
  by (simp only: mapE_members sum.case)

lemma mapE_total: "mapE (\<lambda>x. Inr (f x)) xs = Inr (map f xs)"
  by (induction xs) simp_all

lemma membersOf_users:
  "gum_user ` set (membersOf g rows accounts) =
     {u \<in> set accounts. \<exists>r\<in>set rows. Some (groupId r) = group_id g \<and> userId r = user_id u}"
proof (induction accounts)
  case Nil
  show ?case by (simp add: membersOf_def map_filter_simps)
next
  case (Cons u us)
  show ?case
  proof (cases "find (\<lambda>r. Some (groupId r) = group_id g \<and> userId r = user_id u) rows")
    case None
    then have "\<not> (\<exists>r\<in>set rows. Some (groupId r) = group_id g \<and> userId r = user_id u)"
      by (simp add: find_None_set)
    with None Cons show ?thesis
      by (auto simp add: membersOf_def map_filter_simps)
  next
    case (Some r)
    then have "\<exists>r\<in>set rows. Some (groupId r) = group_id g \<and> userId r = user_id u"
      by (force simp: find_Some_iff)
    with Some Cons show ?thesis
      by (auto simp add: membersOf_def map_filter_simps)
  qed
qed

lemma find_Some_set: "find P xs = Some x \<Longrightarrow> P x \<and> x \<in> set xs"
  by (induction xs) (auto split: if_splits)

lemma membersOf_metadata:
  "e \<in> set (membersOf g rows accounts) \<Longrightarrow>
   \<exists>r\<in>set rows. Some (groupId r) = group_id g \<and> userId r = user_id (gum_user e) \<and>
           gum_joinedAt e = joinedAt r \<and> gum_createdBy e = createdBy r"
proof (induction accounts)
  case Nil
  then show ?case by (simp add: membersOf_def map_filter_simps)
next
  case (Cons u us)
  show ?case
  proof (cases "find (\<lambda>r. Some (groupId r) = group_id g \<and> userId r = user_id u) rows")
    case None
    with Cons.prems have "e \<in> set (membersOf g rows us)"
      by (simp add: membersOf_def map_filter_simps)
    then show ?thesis by (rule Cons.IH)
  next
    case (Some r)
    with Cons.prems have
      "e = \<lparr>gum_user = u, gum_joinedAt = joinedAt r, gum_createdBy = createdBy r\<rparr> \<or>
       e \<in> set (membersOf g rows us)"
      by (simp add: membersOf_def map_filter_simps)
    then show ?thesis
    proof
      assume "e = \<lparr>gum_user = u, gum_joinedAt = joinedAt r, gum_createdBy = createdBy r\<rparr>"
      with find_Some_set[OF Some] show ?thesis by auto
    next
      assume "e \<in> set (membersOf g rows us)"
      then show ?thesis by (rule Cons.IH)
    qed
  qed
qed

text \<open>
  C7. When the four store queries of \<open>getAll\<close> succeed, it returns one entry per
  group, in the order of the store's listing; the \<open>users\<close> of each entry are exactly
  the resolved users for whom a membership row carries that group's id, each with the
  \<open>joinedAt\<close> and \<open>createdBy\<close> of such a row, and its \<open>projects\<close> are exactly the
  project ids of the group-project associations that carry that group's id.
\<close>

theorem getAll_members_and_projects:
  assumes "gs_getAll st s = Inr groups"
      and "gs_getAllUsersByGroups st (map group_id groups) s = Inr rows"
      and "as_getAllWithId st (map userId rows) s = Inr accounts"
      and "gs_getGroupProjects st (map group_id groups) s = Inr groupProjects"
  shows "getAll st s =
           (Inr (map (\<lambda>g. \<lparr>gm_group = g, gm_users = membersOf g rows accounts,
                            projects = Some (projectsOf g groupProjects)\<rparr>) groups),
            s,
            [GetAll, GetAllUsersByGroups (map group_id groups),
             AccountGetAllWithId (map userId rows), GetGroupProjects (map group_id groups)]) \<and>
         (\<forall>g \<in> set groups.
            gum_user ` set (membersOf g rows accounts) =
              {u \<in> set accounts.
                 \<exists>r\<in>set rows. Some (groupId r) = group_id g \<and> userId r = user_id u} \<and>
            (\<forall>e \<in> set (membersOf g rows accounts).
               \<exists>r\<in>set rows. Some (groupId r) = group_id g \<and>
                 userId r = user_id (gum_user e) \<and>
                 gum_joinedAt e = joinedAt r \<and> gum_createdBy e = createdBy r) \<and>
            set (projectsOf g groupProjects) =
              {project p |p. p \<in> set groupProjects \<and> Some (gp_groupId p) = group_id g})"
proof (intro conjI ballI)
  show "getAll st s =
           (Inr (map (\<lambda>g. \<lparr>gm_group = g, gm_users = membersOf g rows accounts,
                            projects = Some (projectsOf g groupProjects)\<rparr>) groups),
            s,
            [GetAll, GetAllUsersByGroups (map group_id groups),
             AccountGetAllWithId (map userId rows), GetGroupProjects (map group_id groups)])"
    using assms
    by (subst run_eq)
       (simp add: getAll_def run_simps fromStore_simps mapGroupWithUsers_eq
          mapGroupWithProjects_def projectsOf_def mapE_total)
next
  fix g
  show "gum_user ` set (membersOf g rows accounts) =
          {u \<in> set accounts. \<exists>r\<in>set rows. Some (groupId r) = group_id g \<and> userId r = user_id u}"
    by (rule membersOf_users)
  fix e
  assume "e \<in> set (membersOf g rows accounts)"
  then show "\<exists>r\<in>set rows. Some (groupId r) = group_id g \<and>
                 userId r = user_id (gum_user e) \<and>
                 gum_joinedAt e = joinedAt r \<and> gum_createdBy e = createdBy r"
    by (rule membersOf_metadata)
next
  fix g
  show "set (projectsOf g groupProjects) =
          {project p |p. p \<in> set groupProjects \<and> Some (gp_groupId p) = group_id g}"
    by (auto simp: projectsOf_def)
qed

lemma ex7_groups: "gs_getAll exampleStores exampleDb = Inr [devsGroup, opsGroup]"
  by (simp add: db_defs example_defs)

lemma ex7_rows:
  "gs_getAllUsersByGroups exampleStores (map group_id [devsGroup, opsGroup]) exampleDb =
     Inr [member 1 1, member 1 2, member 1 3, member 2 1]"
  by (simp add: db_defs example_defs)

lemma ex7_accounts:
  "as_getAllWithId exampleStores
     (map userId [member 1 1, member 1 2, member 1 3, member 2 1]) exampleDb =
     Inr [userA, userB, userC]"
  by (simp add: db_defs example_defs)

lemma ex7_projects:
  "gs_getGroupProjects exampleStores (map group_id [devsGroup, opsGroup]) exampleDb =
     Inr [\<lparr>gp_groupId = 2, project = ''default''\<rparr>]"
  by (simp add: db_defs example_defs)

theorem getAll_members_and_projects_witness:
  "gs_getAll exampleStores exampleDb = Inr [devsGroup, opsGroup] \<and>
   gs_getAllUsersByGroups exampleStores (map group_id [devsGroup, opsGroup]) exampleDb =
     Inr [member 1 1, member 1 2, member 1 3, member 2 1] \<and>
   as_getAllWithId exampleStores
     (map userId [member 1 1, member 1 2, member 1 3, member 2 1]) exampleDb =
     Inr [userA, userB, userC] \<and>
   gs_getGroupProjects exampleStores (map group_id [devsGroup, opsGroup]) exampleDb =
     Inr [\<lparr>gp_groupId = 2, project = ''default''\<rparr>] \<and>
   getAll exampleStores exampleDb =
     (Inr [\<lparr>gm_group = devsGroup,
            gm_users =
              [\<lparr>gum_user = userA, gum_joinedAt = 7, gum_createdBy = Some ''root''\<rparr>,
               \<lparr>gum_user = userB, gum_joinedAt = 7, gum_createdBy = Some ''root''\<rparr>,
               \<lparr>gum_user = userC, gum_joinedAt = 7, gum_createdBy = Some ''root''\<rparr>],
            projects = Some []\<rparr>,
           \<lparr>gm_group = opsGroup,
            gm_users = [\<lparr>gum_user = userA, gum_joinedAt = 7, gum_createdBy = Some ''root''\<rparr>],
            projects = Some [''default'']\<rparr>],
      exampleDb,
      [GetAll, GetAllUsersByGroups [Some 1, Some 2], AccountGetAllWithId [1, 2, 3, 1],
       GetGroupProjects [Some 1, Some 2]])"
proof -
  have "getAll exampleStores exampleDb =
     (Inr (map (\<lambda>g. \<lparr>gm_group = g,
                      gm_users = membersOf g [member 1 1, member 1 2, member 1 3, member 2 1]
                                   [userA, userB, userC],
                      projects = Some (projectsOf g [\<lparr>gp_groupId = 2, project = ''default''\<rparr>])\<rparr>)
             [devsGroup, opsGroup]),
      exampleDb,
      [GetAll, GetAllUsersByGroups (map group_id [devsGroup, opsGroup]),
       AccountGetAllWithId (map userId [member 1 1, member 1 2, member 1 3, member 2 1]),
       GetGroupProjects (map group_id [devsGroup, opsGroup])])"
    using getAll_members_and_projects[OF ex7_groups ex7_rows ex7_accounts ex7_projects]
    by (rule conjunct1)
  then have "getAll exampleStores exampleDb =
     (Inr [\<lparr>gm_group = devsGroup,
            gm_users =
              [\<lparr>gum_user = userA, gum_joinedAt = 7, gum_createdBy = Some ''root''\<rparr>,
               \<lparr>gum_user = userB, gum_joinedAt = 7, gum_createdBy = Some ''root''\<rparr>,
               \<lparr>gum_user = userC, gum_joinedAt = 7, gum_createdBy = Some ''root''\<rparr>],
            projects = Some []\<rparr>,
           \<lparr>gm_group = opsGroup,
            gm_users = [\<lparr>gum_user = userA, gum_joinedAt = 7, gum_createdBy = Some ''root''\<rparr>],
            projects = Some [''default'']\<rparr>],
      exampleDb,
      [GetAll, GetAllUsersByGroups [Some 1, Some 2], AccountGetAllWithId [1, 2, 3, 1],
       GetGroupProjects [Some 1, Some 2]])"
    by (simp add: membersOf_def projectsOf_def map_filter_simps example_defs)
  with ex7_groups ex7_rows ex7_accounts ex7_projects show ?thesis
    by (intro conjI)
qed

section \<open>Reconciliation with external groups\<close>

lemma those_group_ids: "those (map (group_id \<circ> rowToGroup) rs) = Some (map row_id rs)"
  by (induction rs) (simp_all add: rowToGroup_def)

lemma reconciled_set:
  "set (reconciled imp uid t c G M) =
     {m \<in> set M \<union> (\<lambda>r. \<lparr>groupId = row_id r, userId = uid, joinedAt = t, createdBy = c\<rparr>) `
             {r \<in> set G. imp r \<and> \<not> (\<exists>m\<in>set M. groupId m = row_id r \<and> userId m = uid)}.
        \<not> (userId m = uid \<and> \<not> (\<exists>r\<in>set G. row_id r = groupId m \<and> imp r))}"
  unfolding reconciled_def Let_def list_ex_iff set_filter set_append set_map image_image
  by (rule Collect_cong) auto

lemma reconciled_no_new:
  "filter (\<lambda>r. imp r \<and>
               \<not> list_ex (\<lambda>m. groupId m = row_id r \<and> userId m = uid) (reconciled imp uid t c G M))
     G = []"
proof -
  have "\<exists>m\<in>set (reconciled imp uid t c G M). groupId m = row_id r \<and> userId m = uid"
    if r: "r \<in> set G" "imp r" for r
  proof (cases "\<exists>m\<in>set M. groupId m = row_id r \<and> userId m = uid")
    case True
    then obtain m where m: "m \<in> set M" "groupId m = row_id r" "userId m = uid" by blast
    with r have "m \<in> set (reconciled imp uid t c G M)"
      by (auto simp: reconciled_set)
    with m show ?thesis by blast
  next
    case False
    let ?m = "\<lparr>groupId = row_id r, userId = uid, joinedAt = t, createdBy = c\<rparr>"
    from False r have "?m \<in> set (reconciled imp uid t c G M)"
      by (auto simp: reconciled_set)
    then show ?thesis by force
  qed
  then show ?thesis
    unfolding filter_empty_conv list_ex_iff by blast
qed

lemma reconciled_no_old:
  "filter (\<lambda>m. userId m = uid \<and> \<not> list_ex (\<lambda>r. row_id r = groupId m \<and> imp r) G)
     (reconciled imp uid t c G M) = []"
  by (auto simp: filter_empty_conv list_ex_iff reconciled_set)

lemma sync_first:
  "syncExternalGroups (dbStores implied) uid (IsArray names) creator d =
     (Inr (),
      d\<lparr>db_group_user :=
          reconciled (\<lambda>r. implied (rowToGroup r) names) uid (db_now d) creator
            (db_groups d) (db_group_user d)\<rparr>,
      [GetNewGroupsForExternalUser uid names,
       AddUserToGroups uid
         (map group_id
            (map rowToGroup
               (filter (\<lambda>r. implied (rowToGroup r) names \<and>
                            \<not> list_ex (\<lambda>m. groupId m = row_id r \<and> userId m = uid)
                                (db_group_user d))
                  (db_groups d)))) creator,
       GetOldGroupsForExternalUser uid names,
       DeleteUsersFromGroup
         (filter (\<lambda>m. userId m = uid \<and>
                      \<not> list_ex (\<lambda>r. row_id r = groupId m \<and> implied (rowToGroup r) names)
                          (db_groups d))
            (db_group_user d @
             map (\<lambda>i. \<lparr>groupId = i, userId = uid, joinedAt = db_now d, createdBy = creator\<rparr>)
               (map row_id
                  (filter (\<lambda>r. implied (rowToGroup r) names \<and>
                               \<not> list_ex (\<lambda>m. groupId m = row_id r \<and> userId m = uid)
                                   (db_group_user d))
                     (db_groups d)))))])"
  by (subst run_eq)
     (simp add: syncExternalGroups_def run_simps fromStore_simps dbStores_simps
      db_getNewGroupsForExternalUser_def db_addUserToGroups_def
      db_getOldGroupsForExternalUser_def db_deleteUsersFromGroup_def
      those_group_ids reconciled_def Let_def)

lemma sync_second:
  "syncExternalGroups (dbStores implied) uid (IsArray names) creator'
     (d\<lparr>db_group_user := reconciled (\<lambda>r. implied (rowToGroup r) names) uid t c
           (db_groups d) M\<rparr>) =
   (Inr (),
    d\<lparr>db_group_user := reconciled (\<lambda>r. implied (rowToGroup r) names) uid t c (db_groups d) M\<rparr>,
    [GetNewGroupsForExternalUser uid names, AddUserToGroups uid [] creator',
     GetOldGroupsForExternalUser uid names, DeleteUsersFromGroup []])"
  by (subst run_eq)
     (simp add: syncExternalGroups_def run_simps fromStore_simps dbStores_simps
      db_getNewGroupsForExternalUser_def db_addUserToGroups_def
      db_getOldGroupsForExternalUser_def db_deleteUsersFromGroup_def
      reconciled_no_new reconciled_no_old)

text \<open>
  C2. On the relational store, a first \<open>syncExternalGroups\<close> with a list of external
  names completes, and a second call with the same user and the same list, right after
  it, changes nothing: it adds the user to no group (\<open>addUserToGroups\<close> with no group
  id), removes no membership (\<open>deleteUsersFromGroup\<close> with no row) and leaves the
  store state as the first call left it. This holds for every way \<open>implied\<close> in which
  external names may imply groups.
\<close>

theorem syncExternalGroups_idempotent:
  "outcome (syncExternalGroups (dbStores implied) uid (IsArray names) creator d) = Inr () \<and>
   syncExternalGroups (dbStores implied) uid (IsArray names) creator'
     (final_state (syncExternalGroups (dbStores implied) uid (IsArray names) creator d)) =
   (Inr (),
    final_state (syncExternalGroups (dbStores implied) uid (IsArray names) creator d),
    [GetNewGroupsForExternalUser uid names, AddUserToGroups uid [] creator',
     GetOldGroupsForExternalUser uid names, DeleteUsersFromGroup []])"
proof -
  have o: "outcome (syncExternalGroups (dbStores implied) uid (IsArray names) creator d) = Inr ()"
    by (simp only: sync_first outcome_def fst_conv)
  have f: "final_state (syncExternalGroups (dbStores implied) uid (IsArray names) creator d) =
      d\<lparr>db_group_user :=
          reconciled (\<lambda>r. implied (rowToGroup r) names) uid (db_now d) creator
            (db_groups d) (db_group_user d)\<rparr>"
    by (simp only: sync_first final_state_def fst_conv snd_conv)
  show ?thesis
    unfolding o f by (simp only: sync_second simp_thms)
qed

text \<open>
  An instance: user B is a member of \<open>devs\<close> only and the identity provider reports
  \<open>ops\<close>. The first call moves B from \<open>devs\<close> to \<open>ops\<close>; the second changes nothing.
\<close>

lemma ex2_first:
  "final_state (syncExternalGroups exampleStores 2 (IsArray [''ops'']) (Some ''sso'') exampleDb) =
     exampleDb\<lparr>db_group_user :=
       [member 1 1, member 1 3, member 2 1,
        \<lparr>groupId = 2, userId = 2, joinedAt = 100, createdBy = Some ''sso''\<rparr>]\<rparr>"
  by (simp add: syncExternalGroups_def run_simps fromStore_simps db_defs example_defs)

theorem syncExternalGroups_idempotent_witness:
  "final_state (syncExternalGroups exampleStores 2 (IsArray [''ops'']) (Some ''sso'') exampleDb) =
     exampleDb\<lparr>db_group_user :=
       [member 1 1, member 1 3, member 2 1,
        \<lparr>groupId = 2, userId = 2, joinedAt = 100, createdBy = Some ''sso''\<rparr>]\<rparr> \<and>
   outcome (syncExternalGroups exampleStores 2 (IsArray [''ops'']) (Some ''sso'') exampleDb) =
     Inr () \<and>
   syncExternalGroups exampleStores 2 (IsArray [''ops'']) (Some ''sso'')
     (exampleDb\<lparr>db_group_user :=
       [member 1 1, member 1 3, member 2 1,
        \<lparr>groupId = 2, userId = 2, joinedAt = 100, createdBy = Some ''sso''\<rparr>]\<rparr>) =
   (Inr (),
    exampleDb\<lparr>db_group_user :=
       [member 1 1, member 1 3, member 2 1,
        \<lparr>groupId = 2, userId = 2, joinedAt = 100, createdBy = Some ''sso''\<rparr>]\<rparr>,
    [GetNewGroupsForExternalUser 2 [''ops''], AddUserToGroups 2 [] (Some ''sso''),
     GetOldGroupsForExternalUser 2 [''ops''], DeleteUsersFromGroup []])"
  using syncExternalGroups_idempotent
    [of impliedByName 2 "[''ops'']" "Some ''sso''" exampleDb "Some ''sso''"]
  unfolding ex2_first by (simp only: simp_thms)

section \<open>Name collision and role conflict\<close>

lemma validateGroup_same_name:
  assumes "name existing = name grp"
  shows "ExistsWithName n \<notin> set (calls (validateGroup st grp (Some existing) s))"
    and "outcome (validateGroup st grp (Some existing) s) \<noteq> Inl (NameExistsError m)"
  using assms
  by (simp_all add: validateGroup_def run_simps fromStore_def split: sum.splits)

lemma updateGroup_same_name:
  assumes "gs_get st (group_id grp) s = Inr preData" "name preData = name grp"
  shows "ExistsWithName n \<notin> set (calls (updateGroup st grp userName s))"
    and "outcome (updateGroup st grp userName s) \<noteq> Inl (NameExistsError m)"
  using assms validateGroup_same_name(1)[OF assms(2), where n=n and st=st and s=s]
    validateGroup_same_name(2)[OF assms(2), where m=m and st=st and s=s]
  by (auto simp add: updateGroup_def run_simps Let_def fromStore_simps fromStore_Inl_iff
      validateGroup_state split: sum.splits)

lemma createGroup_name_exists:
  assumes "name grp \<noteq> []" "gs_existsWithName st (name grp) s = Inr True"
  shows "createGroup st grp userName s = (Inl nameExistsError, s, [ExistsWithName (name grp)])"
  using assms
  by (subst run_eq) (simp add: createGroup_def validateGroup_def run_simps fromStore_simps)

lemma db_createGroup_persists_name:
  assumes "outcome (createGroup (dbStores implied) g1 u1 d) = Inr created"
  shows "name g1 \<noteq> []"
    and "gs_existsWithName (dbStores implied) (name g1)
           (final_state (createGroup (dbStores implied) g1 u1 d)) = Inr True"
proof -
  show "name g1 \<noteq> []"
    using assms by (auto simp add: createGroup_def validateGroup_def run_simps)
  have v: "outcome (validateGroup (dbStores implied) g1 None d) = Inr ()"
    using assms
    by (cases "outcome (validateGroup (dbStores implied) g1 None d)")
       (simp_all add: createGroup_def run_simps)
  have "db_groups (final_state (createGroup (dbStores implied) g1 u1 d)) =
          db_groups d @
          [\<lparr>row_id = 1 + foldr max (map row_id (db_groups d)) 0, row_name = name g1,
            row_rootRole = rootRole g1\<rparr>]"
    by (simp add: createGroup_def run_simps v validateGroup_state fromStore_simps dbStores_simps
        db_create_def db_addUsersToGroup_def db_events_store_def rowToGroup_def Let_def)
  then show "gs_existsWithName (dbStores implied) (name g1)
           (final_state (createGroup (dbStores implied) g1 u1 d)) = Inr True"
    by (simp add: dbStores_simps db_existsWithName_def)
qed

text \<open>
  C5. Creating a group under a (non-empty) name that the store reports as already held
  fails with the name-collision error, after the name-existence query and nothing else.
  Updating a group and keeping its current name performs no name-existence query and
  does not raise the name-collision error. On the relational store, once a group has
  been created, creating a second group of the same name fails with the name-collision
  error.
\<close>

theorem name_collision_check:
  "(name grp \<noteq> [] \<and> gs_existsWithName st (name grp) s = Inr True \<longrightarrow>
      createGroup st grp userName s = (Inl nameExistsError, s, [ExistsWithName (name grp)])) \<and>
   (gs_get st (group_id grp') s' = Inr preData \<and> name preData = name grp' \<longrightarrow>
      ExistsWithName n \<notin> set (calls (updateGroup st grp' userName' s')) \<and>
      outcome (updateGroup st grp' userName' s') \<noteq> Inl (NameExistsError m)) \<and>
   (outcome (createGroup (dbStores implied) g1 u1 d) = Inr created \<and> name g2 = name g1 \<longrightarrow>
      outcome (createGroup (dbStores implied) g2 u2
                 (final_state (createGroup (dbStores implied) g1 u1 d))) = Inl nameExistsError)"
proof (intro conjI impI)
  assume "name grp \<noteq> [] \<and> gs_existsWithName st (name grp) s = Inr True"
  then show "createGroup st grp userName s =
      (Inl nameExistsError, s, [ExistsWithName (name grp)])"
    by (simp add: createGroup_name_exists)
next
  assume a: "gs_get st (group_id grp') s' = Inr preData \<and> name preData = name grp'"
  show "ExistsWithName n \<notin> set (calls (updateGroup st grp' userName' s'))"
    by (rule updateGroup_same_name(1)[OF conjunct1[OF a] conjunct2[OF a]])
  show "outcome (updateGroup st grp' userName' s') \<noteq> Inl (NameExistsError m)"
    by (rule updateGroup_same_name(2)[OF conjunct1[OF a] conjunct2[OF a]])
next
  assume b: "outcome (createGroup (dbStores implied) g1 u1 d) = Inr created \<and> name g2 = name g1"
  from db_createGroup_persists_name[OF conjunct1[OF b]] conjunct2[OF b]
  have "name g2 \<noteq> []"
    and "gs_existsWithName (dbStores implied) (name g2)
           (final_state (createGroup (dbStores implied) g1 u1 d)) = Inr True"
    by simp_all
  from createGroup_name_exists[OF this]
  show "outcome (createGroup (dbStores implied) g2 u2
          (final_state (createGroup (dbStores implied) g1 u1 d))) = Inl nameExistsError"
    by (simp add: outcome_def)
qed

lemma ex5_exists:
  "name (groupInput None ''devs'' None [userD]) \<noteq> [] \<and>
   gs_existsWithName exampleStores (name (groupInput None ''devs'' None [userD])) exampleDb
     = Inr True"
  by (simp add: db_defs example_defs)

lemma ex5_same:
  "gs_get exampleStores (group_id desiredBCD) exampleDb = Inr devsGroup \<and>
   name devsGroup = name desiredBCD"
  by (simp add: db_defs example_defs)

lemma ex5_created:
  "outcome (createGroup exampleStores (groupInput None ''team'' None [userD]) ''admin'' exampleDb)
     = Inr \<lparr>group_id = Some 3, name = ''team'', rootRole = None\<rparr> \<and>
   name (groupInput None ''team'' (Some 1) []) = name (groupInput None ''team'' None [userD])"
  by (simp add: createGroup_def validateGroup_def run_simps truthy_def fromStore_simps
      db_defs example_defs)

theorem name_collision_check_witness:
  "name (groupInput None ''devs'' None [userD]) \<noteq> [] \<and>
   gs_existsWithName exampleStores (name (groupInput None ''devs'' None [userD])) exampleDb
     = Inr True \<and>
   createGroup exampleStores (groupInput None ''devs'' None [userD]) ''admin'' exampleDb =
     (Inl nameExistsError, exampleDb,
      [ExistsWithName (name (groupInput None ''devs'' None [userD]))]) \<and>
   gs_get exampleStores (group_id desiredBCD) exampleDb = Inr devsGroup \<and>
   name devsGroup = name desiredBCD \<and>
   ExistsWithName ''devs'' \<notin> set (calls (updateGroup exampleStores desiredBCD ''admin'' exampleDb)) \<and>
   outcome (updateGroup exampleStores desiredBCD ''admin'' exampleDb) \<noteq> Inl nameExistsError \<and>
   outcome (createGroup exampleStores (groupInput None ''team'' None [userD]) ''admin'' exampleDb)
     = Inr \<lparr>group_id = Some 3, name = ''team'', rootRole = None\<rparr> \<and>
   name (groupInput None ''team'' (Some 1) []) = name (groupInput None ''team'' None [userD]) \<and>
   outcome (createGroup exampleStores (groupInput None ''team'' (Some 1) []) ''root''
     (final_state (createGroup exampleStores (groupInput None ''team'' None [userD]) ''admin''
        exampleDb))) = Inl nameExistsError"
  using ex5_exists ex5_same ex5_created
    name_collision_check[of "groupInput None ''devs'' None [userD]" exampleStores exampleDb
      "''admin''" desiredBCD exampleDb devsGroup "''devs''" "''admin''"
      "''Group name already exists''" impliedByName "groupInput None ''team'' None [userD]"
      "''admin''" exampleDb "\<lparr>group_id = Some 3, name = ''team'', rootRole = None\<rparr>"
      "groupInput None ''team'' (Some 1) []" "''root''"]
  by simp

text \<open>
  C6, as stated, fails: the name checks run before the role check. Group \<open>ops\<close> (id 2)
  has a project role on record; an update that sets a root role on it and renames it to
  \<open>devs\<close>, a name held by group 1, fails with the name-collision error, not with the
  data-validation error. And group \<open>devs\<close> (id 1) has no project role; an update that
  adds a root role and renames it to \<open>ops\<close> does not pass validation.
\<close>

theorem rootRole_conflict_counterexample:
  "truthy (group_id (groupInput (Some 2) ''devs'' (Some 1) [userA])) \<and>
   truthy (rootRole (groupInput (Some 2) ''devs'' (Some 1) [userA])) \<and>
   gs_hasProjectRole exampleStores (group_id (groupInput (Some 2) ''devs'' (Some 1) [userA]))
     exampleDb = Inr True \<and>
   outcome (updateGroup exampleStores (groupInput (Some 2) ''devs'' (Some 1) [userA]) ''admin''
     exampleDb) = Inl nameExistsError \<and>
   truthy (rootRole (groupInput (Some 1) ''ops'' (Some 1) [userA])) \<and>
   gs_hasProjectRole exampleStores (group_id (groupInput (Some 1) ''ops'' (Some 1) [userA]))
     exampleDb = Inr False \<and>
   outcome (validateGroup exampleStores (groupInput (Some 1) ''ops'' (Some 1) [userA])
     (Some devsGroup) exampleDb) = Inl nameExistsError \<and>
   outcome (updateGroup exampleStores (groupInput (Some 1) ''ops'' (Some 1) [userA]) ''admin''
     exampleDb) = Inl nameExistsError"
  by (simp add: updateGroup_def validateGroup_def run_simps truthy_def fromStore_simps
      db_defs example_defs)

lemma validateGroup_role_check:
  assumes "name grp \<noteq> []"
      and "name preData = name grp \<or> gs_existsWithName st (name grp) s = Inr False"
      and "truthy (group_id grp)" and "truthy (rootRole grp)"
      and "gs_hasProjectRole st (group_id grp) s = Inr has"
  shows "outcome (validateGroup st grp (Some preData) s) =
           (if has then Inl roleConflictError else Inr ())"
  using assms
  by (auto simp add: validateGroup_def run_simps fromStore_simps)

text \<open>
  C6, amended. Take an \<open>updateGroup\<close> call whose prior state is found and whose name
  checks pass (the name is not empty, and is unchanged or not held by any group), with a
  truthy group id and a truthy root role. If the store records a project role for the
  group, validation fails with the data-validation error of the role conflict, and the
  call ends there, before any store command, with the state unchanged. If the store
  records none, validation succeeds and the call goes on to persist the update.
\<close>

theorem rootRole_conflict_on_update:
  assumes "gs_get st (group_id grp) s = Inr preData"
      and "name grp \<noteq> []"
      and "name preData = name grp \<or> gs_existsWithName st (name grp) s = Inr False"
      and "truthy (group_id grp)" and "truthy (rootRole grp)"
      and "gs_hasProjectRole st (group_id grp) s = Inr has"
  shows "outcome (validateGroup st grp (Some preData) s) =
           (if has then Inl roleConflictError else Inr ()) \<and>
         (if has
          then outcome (updateGroup st grp userName s) = Inl roleConflictError \<and>
               final_state (updateGroup st grp userName s) = s \<and>
               filter is_write (calls (updateGroup st grp userName s)) = []
          else Update grp \<in> set (calls (updateGroup st grp userName s)))"
proof -
  have v: "outcome (validateGroup st grp (Some preData) s) =
           (if has then Inl roleConflictError else Inr ())"
    by (rule validateGroup_role_check[OF assms(2-6)])
  show ?thesis
  proof (cases has)
    case True
    with v have "outcome (validateGroup st grp (Some preData) s) = Inl roleConflictError"
      by simp
    with assms(1) have o: "outcome (updateGroup st grp userName s) = Inl roleConflictError"
      by (simp add: updateGroup_def run_simps fromStore_simps validateGroup_state)
    from updateGroup_validation_error[OF o] v True o show ?thesis
      by (simp add: validation_error_simps)
  next
    case False
    with v have "outcome (validateGroup st grp (Some preData) s) = Inr ()"
      by simp
    with assms(1) have "Update grp \<in> set (calls (updateGroup st grp userName s))"
      by (simp add: updateGroup_def run_simps fromStore_simps validateGroup_state)
    with v False show ?thesis by simp
  qed
qed

lemma ex6_conflict:
  "gs_get exampleStores (group_id (groupInput (Some 2) ''ops'' (Some 1) [userA])) exampleDb
     = Inr opsGroup"
  "name (groupInput (Some 2) ''ops'' (Some 1) [userA]) \<noteq> []"
  "name opsGroup = name (groupInput (Some 2) ''ops'' (Some 1) [userA]) \<or>
   gs_existsWithName exampleStores (name (groupInput (Some 2) ''ops'' (Some 1) [userA])) exampleDb
     = Inr False"
  "truthy (group_id (groupInput (Some 2) ''ops'' (Some 1) [userA]))"
  "truthy (rootRole (groupInput (Some 2) ''ops'' (Some 1) [userA]))"
  "gs_hasProjectRole exampleStores (group_id (groupInput (Some 2) ''ops'' (Some 1) [userA]))
     exampleDb = Inr True"
  by (simp_all add: truthy_def db_defs example_defs)

lemma ex6_free:
  "gs_get exampleStores (group_id (groupInput (Some 1) ''team'' (Some 1) [userA])) exampleDb
     = Inr devsGroup"
  "name (groupInput (Some 1) ''team'' (Some 1) [userA]) \<noteq> []"
  "name devsGroup = name (groupInput (Some 1) ''team'' (Some 1) [userA]) \<or>
   gs_existsWithName exampleStores (name (groupInput (Some 1) ''team'' (Some 1) [userA]))
     exampleDb = Inr False"
  "truthy (group_id (groupInput (Some 1) ''team'' (Some 1) [userA]))"
  "truthy (rootRole (groupInput (Some 1) ''team'' (Some 1) [userA]))"
  "gs_hasProjectRole exampleStores (group_id (groupInput (Some 1) ''team'' (Some 1) [userA]))
     exampleDb = Inr False"
  by (simp_all add: truthy_def db_defs example_defs)

theorem rootRole_conflict_on_update_witness:
  "gs_get exampleStores (group_id (groupInput (Some 2) ''ops'' (Some 1) [userA])) exampleDb
     = Inr opsGroup \<and>
   truthy (group_id (groupInput (Some 2) ''ops'' (Some 1) [userA])) \<and>
   truthy (rootRole (groupInput (Some 2) ''ops'' (Some 1) [userA])) \<and>
   gs_hasProjectRole exampleStores (group_id (groupInput (Some 2) ''ops'' (Some 1) [userA]))
     exampleDb = Inr True \<and>
   outcome (validateGroup exampleStores (groupInput (Some 2) ''ops'' (Some 1) [userA])
     (Some opsGroup) exampleDb) = Inl roleConflictError \<and>
   outcome (updateGroup exampleStores (groupInput (Some 2) ''ops'' (Some 1) [userA]) ''admin''
     exampleDb) = Inl roleConflictError \<and>
   final_state (updateGroup exampleStores (groupInput (Some 2) ''ops'' (Some 1) [userA]) ''admin''
     exampleDb) = exampleDb \<and>
   filter is_write (calls (updateGroup exampleStores (groupInput (Some 2) ''ops'' (Some 1) [userA])
     ''admin'' exampleDb)) = [] \<and>
   gs_get exampleStores (group_id (groupInput (Some 1) ''team'' (Some 1) [userA])) exampleDb
     = Inr devsGroup \<and>
   gs_existsWithName exampleStores (name (groupInput (Some 1) ''team'' (Some 1) [userA]))
     exampleDb = Inr False \<and>
   truthy (group_id (groupInput (Some 1) ''team'' (Some 1) [userA])) \<and>
   truthy (rootRole (groupInput (Some 1) ''team'' (Some 1) [userA])) \<and>
   gs_hasProjectRole exampleStores (group_id (groupInput (Some 1) ''team'' (Some 1) [userA]))
     exampleDb = Inr False \<and>
   outcome (validateGroup exampleStores (groupInput (Some 1) ''team'' (Some 1) [userA])
     (Some devsGroup) exampleDb) = Inr () \<and>
   Update (groupInput (Some 1) ''team'' (Some 1) [userA]) \<in>
     set (calls (updateGroup exampleStores (groupInput (Some 1) ''team'' (Some 1) [userA])
       ''admin'' exampleDb))"
proof -
  have e: "gs_existsWithName exampleStores
      (name (groupInput (Some 1) ''team'' (Some 1) [userA])) exampleDb = Inr False"
    by (simp add: db_defs example_defs)
  show ?thesis
    using ex6_conflict(1,4,5,6) ex6_free(1,4,5,6) e
      rootRole_conflict_on_update[OF ex6_conflict, of "''admin''"]
      rootRole_conflict_on_update[OF ex6_free, of "''admin''"]
    by simp
qed

end
